theory Spec2Isabelle
  imports Complex_Main
begin

section \<open>Values: exceptions and array elements\<close>

text \<open>
  The helpers of \<^verbatim>\<open>helpers/helper_functions.py\<close> raise nothing themselves; every
  exception comes out of an indexing expression or out of a library call.
\<close>

datatype py_error = ValueError | IndexError

text \<open>
  An element of a float64 array. The finite values are idealised as exact reals (no
  rounding, no signed zero); the three special values that numpy produces instead of
  raising are kept, since numpy only warns on a division by zero or on the logarithm
  of zero.
\<close>

datatype npfloat = Fin real | PInf | NInf | NaN

text \<open>\<^verbatim>\<open>a / b\<close> on two finite floats: division by zero gives \<^verbatim>\<open>nan\<close> or an infinity.\<close>

definition np_true_divide :: "real \<Rightarrow> real \<Rightarrow> npfloat" where
  "np_true_divide a b =
     (if b \<noteq> 0 then Fin (a / b)
      else if a = 0 then NaN
      else if 0 < a then PInf else NInf)"

text \<open>\<^verbatim>\<open>np.log10\<close>: \<^verbatim>\<open>-inf\<close> at zero, \<^verbatim>\<open>nan\<close> on negative numbers.\<close>

fun np_log10 :: "npfloat \<Rightarrow> npfloat" where
  "np_log10 (Fin x) = (if 0 < x then Fin (log 10 x) else if x = 0 then NInf else NaN)"
| "np_log10 PInf = PInf"
| "np_log10 NInf = NaN"
| "np_log10 NaN = NaN"

text \<open>\<^verbatim>\<open>c * a\<close> for a finite scalar \<^verbatim>\<open>c\<close> and an array element.\<close>

fun np_scale :: "real \<Rightarrow> npfloat \<Rightarrow> npfloat" where
  "np_scale c (Fin x) = Fin (c * x)"
| "np_scale c PInf = (if 0 < c then PInf else if c < 0 then NInf else NaN)"
| "np_scale c NInf = (if 0 < c then NInf else if c < 0 then PInf else NaN)"
| "np_scale c NaN = NaN"

text \<open>\<^verbatim>\<open>a + b\<close> on array elements.\<close>

fun np_add :: "npfloat \<Rightarrow> npfloat \<Rightarrow> npfloat" where
  "np_add (Fin x) (Fin y) = Fin (x + y)"
| "np_add NaN _ = NaN"
| "np_add _ NaN = NaN"
| "np_add PInf NInf = NaN"
| "np_add NInf PInf = NaN"
| "np_add PInf _ = PInf"
| "np_add _ PInf = PInf"
| "np_add NInf _ = NInf"
| "np_add _ NInf = NInf"

text \<open>\<^verbatim>\<open>a < b\<close> on array elements: every comparison with \<^verbatim>\<open>nan\<close> is false.\<close>

fun np_less :: "npfloat \<Rightarrow> npfloat \<Rightarrow> bool" where
  "np_less (Fin x) (Fin y) = (x < y)"
| "np_less NaN _ = False"
| "np_less _ NaN = False"
| "np_less _ NInf = False"
| "np_less PInf _ = False"
| "np_less NInf _ = True"
| "np_less _ PInf = True"

section \<open>The library calls of \<^verbatim>\<open>find_fft\<close>\<close>

text \<open>
  \<^verbatim>\<open>np.fft.fft(a, n)\<close> first brings the input to length \<^verbatim>\<open>n\<close>: it is cropped when
  longer and padded with zeros when shorter.
\<close>

definition resize :: "complex list \<Rightarrow> nat \<Rightarrow> complex list" where
  "resize a n = (if n < length a then take n a else a @ replicate (n - length a) 0)"

text \<open>
  The transform of a sequence of length \<open>n\<close>, by the formula of the numpy documentation:
  \<open>A\<^sub>k = \<Sum>m<n. a\<^sub>m * exp (- 2 \<pi> \<i> m k / n)\<close>.
\<close>

definition dft :: "complex list \<Rightarrow> complex list" where
  "dft a =
     map (\<lambda>k. sum_list (map (\<lambda>m. a ! m * cis (- (2 * pi * real m * real k / real (length a))))
                              [0..<length a]))
         [0..<length a]"

text \<open>
  \<^verbatim>\<open>np.fft.fft(a, n=None)\<close>: without \<^verbatim>\<open>n\<close> the length of the input is the
  transform size; it raises \<^verbatim>\<open>ValueError\<close> when the size is below 1.
\<close>

definition np_fft :: "complex list \<Rightarrow> int option \<Rightarrow> py_error + complex list" where
  "np_fft a n_opt =
     (let n = (case n_opt of None \<Rightarrow> int (length a) | Some n \<Rightarrow> n)
      in if n < 1 then Inl ValueError else Inr (dft (resize a (nat n))))"

text \<open>
  \<^verbatim>\<open>np.roll(x, k)\<close> moves the element at index \<open>i\<close> to index \<open>(i + k) mod n\<close>;
  \<^verbatim>\<open>np.fft.fftshift(x)\<close> is \<^verbatim>\<open>np.roll(x, len(x) // 2)\<close>.
\<close>

definition np_roll :: "'a list \<Rightarrow> nat \<Rightarrow> 'a list" where
  "np_roll x k =
     (if x = [] then []
      else drop (length x - k mod length x) x @ take (length x - k mod length x) x)"

definition np_fftshift :: "'a list \<Rightarrow> 'a list" where
  "np_fftshift x = np_roll x (length x div 2)"

section \<open>\<^verbatim>\<open>find_fft\<close>\<close>

text \<open>
  \<^verbatim>\<open>
  def find_fft(signal, n_window):
      fft = np.fft.fftshift(np.fft.fft(signal, n_window))
      return 10*np.log10(abs(fft)/len(signal))
  \<close>
\<close>

definition find_fft :: "complex list \<Rightarrow> int \<Rightarrow> py_error + npfloat list" where
  "find_fft signal n_window =
     (case np_fft signal (Some n_window) of
        Inl e \<Rightarrow> Inl e
      | Inr spectrum \<Rightarrow>
          (let fft = np_fftshift spectrum
           in Inr (map (\<lambda>z. np_scale 10 (np_log10 (np_true_divide (cmod z) (real (length signal)))))
                       fft)))"

section \<open>The spectrum as the specification words it\<close>

text \<open>
  The specification describes the result index by index: the transform of size \<open>n\<close> of
  the samples (cropped to \<open>n\<close>, or padded with zeros, which add nothing to the sum),
  rotated so that bin 0 sits at index \<open>n div 2\<close>, its magnitude divided by the number
  of samples, in decibels.
\<close>

definition spec_DFT :: "complex list \<Rightarrow> nat \<Rightarrow> nat \<Rightarrow> complex" where
  "spec_DFT s n k = (\<Sum>m<min n (length s). s ! m * cis (- (2 * pi * real m * real k / real n)))"

definition spec_centred :: "nat \<Rightarrow> nat \<Rightarrow> nat" where
  "spec_centred n i = (i + n - n div 2) mod n"

definition spec_spectrum :: "complex list \<Rightarrow> nat \<Rightarrow> nat \<Rightarrow> npfloat" where
  "spec_spectrum s n i =
     np_scale 10 (np_log10 (Fin (cmod (spec_DFT s n (spec_centred n i)) / real (length s))))"

section \<open>The renderer\<close>

text \<open>
  The plotting helpers only talk to matplotlib. A figure is modelled by the calls made
  on it, in order; data arguments are float arrays, format and keyword arguments are
  kept as written.
\<close>

datatype call =
    Figure "(real \<times> real) option"
  | Gca
  | AddSubplot nat
  | SetXlabel string
  | SetYlabel string
  | SetTitle string
  | Grid bool
  | SetXlim real real
  | SetYlim real real
  | Plot "npfloat list" "npfloat list" "(string \<times> string) list"
  | Stem "npfloat list" "npfloat list" "(string \<times> string) list"
  | Show

text \<open>
  A helper either runs to its end (\<open>Inr\<close>, all calls made) or stops at an exception
  (\<open>Inl\<close>, with the calls made before it).
\<close>

type_synonym outcome = "(py_error \<times> call list) + call list"

text \<open>\<^verbatim>\<open>xs[i]\<close> for an index that is not negative.\<close>

definition py_get :: "'a list \<Rightarrow> nat \<Rightarrow> py_error + 'a" where
  "py_get xs i = (if i < length xs then Inr (xs ! i) else Inl IndexError)"

text \<open>
  \<^verbatim>\<open>ax.plot(x, y, ...)\<close> and \<^verbatim>\<open>ax.stem(x, y, ...)\<close> raise \<^verbatim>\<open>ValueError\<close> when the two
  arrays differ in length. \<^verbatim>\<open>ax.stem\<close> also raises \<^verbatim>\<open>ValueError\<close> on empty arrays (it
  takes the minimum of the positions), where \<^verbatim>\<open>ax.plot\<close> draws an empty line.
\<close>

definition ax_plot ::
  "npfloat list \<Rightarrow> npfloat list \<Rightarrow> (string \<times> string) list \<Rightarrow> call list \<Rightarrow> outcome" where
  "ax_plot x y kw st = (if length x = length y then Inr (st @ [Plot x y kw]) else Inl (ValueError, st))"

definition ax_stem ::
  "npfloat list \<Rightarrow> npfloat list \<Rightarrow> (string \<times> string) list \<Rightarrow> call list \<Rightarrow> outcome" where
  "ax_stem x y kw st =
     (if x \<noteq> [] \<and> length x = length y then Inr (st @ [Stem x y kw]) else Inl (ValueError, st))"

section \<open>\<^verbatim>\<open>plot_timeseries\<close>\<close>

text \<open>
  One pass of the loop body:
  \<^verbatim>\<open>
  if line[i] == 'continuous':
      ax.plot(x[i],y[i])
  elif line[i] == 'discrete':
      ax.stem(x[i], y[i], basefmt='blue', linefmt='red', markerfmt='C3o')
  elif line[i] == 'dash':
      ax.plot(x[i],y[i],'green',linestyle='--',linewidth = 2.5)
  \<close>
  The style is looked up first; the series are read only in a branch that draws.
\<close>

definition draw_series ::
  "(npfloat list \<Rightarrow> npfloat list \<Rightarrow> call list \<Rightarrow> outcome) \<Rightarrow>
   npfloat list list \<Rightarrow> npfloat list list \<Rightarrow> nat \<Rightarrow> call list \<Rightarrow> outcome" where
  "draw_series draw x y i st =
     (case py_get x i of
        Inl e \<Rightarrow> Inl (e, st)
      | Inr xi \<Rightarrow>
          (case py_get y i of
             Inl e \<Rightarrow> Inl (e, st)
           | Inr yi \<Rightarrow> draw xi yi st))"

definition plot_timeseries_body ::
  "npfloat list list \<Rightarrow> npfloat list list \<Rightarrow> string list \<Rightarrow> nat \<Rightarrow> call list \<Rightarrow> outcome" where
  "plot_timeseries_body x y line i st =
     (case py_get line i of
        Inl e \<Rightarrow> Inl (e, st)
      | Inr tag \<Rightarrow>
          if tag = ''continuous'' then draw_series (\<lambda>xi yi. ax_plot xi yi []) x y i st
          else if tag = ''discrete'' then
            draw_series
              (\<lambda>xi yi. ax_stem xi yi
                 [(''basefmt'', ''blue''), (''linefmt'', ''red''), (''markerfmt'', ''C3o'')])
              x y i st
          else if tag = ''dash'' then
            draw_series
              (\<lambda>xi yi. ax_plot xi yi
                 [(''fmt'', ''green''), (''linestyle'', ''--''), (''linewidth'', ''2.5'')])
              x y i st
          else Inr st)"

text \<open>\<^verbatim>\<open>for i in range(len(x))\<close>: the indices still to visit are the first argument.\<close>

fun plot_timeseries_loop ::
  "nat list \<Rightarrow> npfloat list list \<Rightarrow> npfloat list list \<Rightarrow> string list \<Rightarrow> call list \<Rightarrow> outcome" where
  "plot_timeseries_loop [] x y line st = Inr st"
| "plot_timeseries_loop (i # rest) x y line st =
     (case plot_timeseries_body x y line i st of
        Inl e \<Rightarrow> Inl e
      | Inr st' \<Rightarrow> plot_timeseries_loop rest x y line st')"

text \<open>
  \<^verbatim>\<open>def plot_timeseries(title, x, y, line=['continuous'])\<close>: \<open>None\<close> stands for the
  argument left out.
\<close>

definition plot_timeseries_setup :: "string \<Rightarrow> call list" where
  "plot_timeseries_setup title =
     [Figure (Some (10, 4)), Gca, SetXlabel ''Time (s)'', SetYlabel ''Amplitude'', Grid True,
      SetYlim (- 1.2) 1.2, SetTitle title]"

definition plot_timeseries ::
  "string \<Rightarrow> npfloat list list \<Rightarrow> npfloat list list \<Rightarrow> string list option \<Rightarrow> outcome" where
  "plot_timeseries title x y line_opt =
     (let line = (case line_opt of None \<Rightarrow> [''continuous''] | Some l \<Rightarrow> l)
      in case plot_timeseries_loop [0..<length x] x y line (plot_timeseries_setup title) of
           Inl e \<Rightarrow> Inl e
         | Inr st \<Rightarrow> Inr (st @ [Show]))"

section \<open>\<^verbatim>\<open>plot_response\<close>\<close>

text \<open>
  \<^verbatim>\<open>
  def plot_response(fs, w, h, title, xlim=None):
      if xlim == None:
          xlim = fs/2
      fig = plt.figure()
      ax = fig.add_subplot(111)
      ax.plot(0.5*fs*w/np.pi, 20*np.log10(abs(h)))
      ax.set_ylim(-60, 20)
      ax.set_xlim(0, xlim)
      ax.grid(True)
      ax.set_xlabel('Frequency (Hz)')
      ax.set_ylabel('Gain (dB)')
      ax.set_title(title)
  \<close>
\<close>

definition plot_response ::
  "real \<Rightarrow> real list \<Rightarrow> complex list \<Rightarrow> string \<Rightarrow> real option \<Rightarrow> outcome" where
  "plot_response fs w h title xlim_opt =
     (let xlim = (case xlim_opt of None \<Rightarrow> fs / 2 | Some v \<Rightarrow> v)
      in case ax_plot (map (\<lambda>v. Fin (0.5 * fs * v / pi)) w)
                      (map (\<lambda>z. np_scale 20 (np_log10 (Fin (cmod z)))) h)
                      []
                      [Figure None, AddSubplot 111] of
           Inl e \<Rightarrow> Inl e
         | Inr st \<Rightarrow>
             Inr (st @ [SetYlim (- 60) 20, SetXlim 0 xlim, Grid True,
                        SetXlabel ''Frequency (Hz)'', SetYlabel ''Gain (dB)'', SetTitle title]))"

text \<open>The x-axis limits a figure was given, in the order of the calls.\<close>

fun xlim_calls :: "call list \<Rightarrow> (real \<times> real) list" where
  "xlim_calls [] = []"
| "xlim_calls (SetXlim lo hi # cs) = (lo, hi) # xlim_calls cs"
| "xlim_calls (_ # cs) = xlim_calls cs"

section \<open>Shapes\<close>

lemma length_resize: "length (resize a n) = n"
  by (simp add: resize_def)

lemma length_dft: "length (dft a) = length a"
  by (simp add: dft_def)

lemma length_np_roll: "length (np_roll x k) = length x"
  by (simp add: np_roll_def)

lemma length_np_fftshift: "length (np_fftshift x) = length x"
  by (simp add: np_fftshift_def length_np_roll)

lemma find_fft_Inr:
  "0 < n \<Longrightarrow>
   find_fft s n =
     Inr (map (\<lambda>z. np_scale 10 (np_log10 (np_true_divide (cmod z) (real (length s)))))
              (np_fftshift (dft (resize s (nat n)))))"
  by (simp add: find_fft_def np_fft_def)

text \<open>
  C2: for a non-empty sample sequence and a positive window length, \<^verbatim>\<open>find_fft\<close>
  returns a sequence, and its length is the window length.
\<close>

theorem find_fft_length:
  "s \<noteq> [] \<Longrightarrow> 0 < n \<Longrightarrow> \<exists>ys. find_fft s n = Inr ys \<and> int (length ys) = n"
  by (simp add: find_fft_Inr length_np_fftshift length_dft length_resize)

theorem find_fft_length_witness:
  "[1, 2, 3] \<noteq> ([] :: complex list) \<and> (0::int) < 8
   \<and> (\<exists>ys. find_fft [1, 2, 3] 8 = Inr ys \<and> int (length ys) = 8)"
  using find_fft_length [of "[1, 2, 3]" 8] by simp

section \<open>Index-wise view of the library calls\<close>

lemma resize_nth: "m < n \<Longrightarrow> resize s n ! m = (if m < length s then s ! m else 0)"
  by (simp add: resize_def nth_append)

lemma resize_Nil: "resize [] n = replicate n 0"
  by (simp add: resize_def)

lemma resize_same: "resize a (length a) = a"
  by (simp add: resize_def)

lemma resize_pad: "length s \<le> n \<Longrightarrow> resize s n = s @ replicate (n - length s) 0"
  by (simp add: resize_def)

lemma resize_map: "f 0 = 0 \<Longrightarrow> resize (map f s) n = map f (resize s n)"
  by (simp add: resize_def take_map)

lemma dft_nth:
  assumes "k < length a"
  shows "dft a ! k = (\<Sum>m<length a. a ! m * cis (- (2 * pi * real m * real k / real (length a))))"
  using assms by (simp add: dft_def interv_sum_list_conv_sum_set_nat lessThan_atLeast0)

lemma dft_resize_nth:
  assumes "k < n"
  shows "dft (resize s n) ! k = spec_DFT s n k"
proof -
  let ?f = "\<lambda>m. cis (- (2 * pi * real m * real k / real n))"
  have "dft (resize s n) ! k = (\<Sum>m<n. resize s n ! m * ?f m)"
    using assms by (simp add: dft_nth length_resize)
  also have "\<dots> = (\<Sum>m<n. (if m < length s then s ! m * ?f m else 0))"
    by (rule sum.cong) (simp_all add: resize_nth)
  also have "\<dots> = (\<Sum>m\<in>{m. m < n \<and> m < length s}. s ! m * ?f m)"
    by (simp add: sum.If_cases Int_def flip: sum.inter_restrict)
  also have "{m. m < n \<and> m < length s} = {..<min n (length s)}"
    by auto
  finally show ?thesis
    by (simp add: spec_DFT_def)
qed

lemma dft_zeros: "dft (replicate n 0) = replicate n 0"
proof -
  have "(\<Sum>m\<leftarrow>[0..<n]. replicate n 0 ! m * w m) = 0" for w :: "nat \<Rightarrow> complex"
  proof -
    have "map (\<lambda>m. replicate n 0 ! m * w m) [0..<n] = map (\<lambda>m. 0) [0..<n]"
      by (rule map_cong) simp_all
    then show ?thesis
      by (simp only: sum_list_0)
  qed
  then show ?thesis
    by (simp add: dft_def list_eq_iff_nth_eq)
qed

lemma dft_scale: "dft (map (\<lambda>x. c * x) a) = map (\<lambda>x. c * x) (dft a)"
proof -
  have "(\<Sum>m\<leftarrow>[0..<length a]. map (\<lambda>x. c * x) a ! m * w m) =
        c * (\<Sum>m\<leftarrow>[0..<length a]. a ! m * w m)" for w :: "nat \<Rightarrow> complex"
  proof -
    have "map (\<lambda>m. map (\<lambda>x. c * x) a ! m * w m) [0..<length a] =
          map (\<lambda>m. c * (a ! m * w m)) [0..<length a]"
      by (rule map_cong) (simp_all add: mult.assoc)
    then have "(\<Sum>m\<leftarrow>[0..<length a]. map (\<lambda>x. c * x) a ! m * w m) =
               (\<Sum>m\<leftarrow>[0..<length a]. c * (a ! m * w m))"
      by (rule arg_cong)
    also have "\<dots> = c * (\<Sum>m\<leftarrow>[0..<length a]. a ! m * w m)"
      by (rule sum_list_const_mult)
    finally show ?thesis .
  qed
  then show ?thesis
    by (simp add: dft_def)
qed

lemma np_roll_nth:
  assumes "i < length x" and "k < length x"
  shows "np_roll x k ! i = x ! ((i + length x - k) mod length x)"
proof (cases "i < k")
  case True
  with assms have "(i + length x - k) mod length x = length x - k + i"
    by simp
  with True assms show ?thesis
    by (auto simp add: np_roll_def nth_append)
next
  case False
  with assms have "(i + length x - k) mod length x = i - k"
    by (simp add: mod_if)
  with False assms show ?thesis
    by (auto simp add: np_roll_def nth_append)
qed

lemma np_fftshift_nth:
  assumes "i < length x"
  shows "np_fftshift x ! i = x ! spec_centred (length x) i"
  using assms by (simp add: np_fftshift_def np_roll_nth spec_centred_def)

lemma spec_centred_less: "0 < n \<Longrightarrow> spec_centred n i < n"
  by (simp add: spec_centred_def)

lemma spec_centred_middle: "0 < n \<Longrightarrow> spec_centred n (n div 2) = 0"
  by (simp add: spec_centred_def)

lemma np_roll_replicate: "np_roll (replicate n a) k = replicate n a"
  by (auto simp: np_roll_def list_eq_iff_nth_eq nth_append)

lemma np_roll_map: "np_roll (map f x) k = map f (np_roll x k)"
  by (simp add: np_roll_def drop_map take_map)

lemma np_fftshift_map: "np_fftshift (map f x) = map f (np_fftshift x)"
  by (simp add: np_fftshift_def np_roll_map)

lemma find_fft_nth:
  assumes "0 < n" and "i < nat n"
  shows "projr (find_fft s n) ! i =
         np_scale 10 (np_log10 (np_true_divide
           (cmod (dft (resize s (nat n)) ! spec_centred (nat n) i)) (real (length s))))"
  using assms
  by (simp add: find_fft_Inr length_np_fftshift length_dft length_resize np_fftshift_nth)

section \<open>Small transforms\<close>

lemma cis_root_power: "cis (- (2 * pi * real m * real k / l)) = cis (- (2 * pi / l)) ^ (m * k)"
proof -
  have "cis (- (2 * pi * real m * real k / l)) = cis (real (m * k) * (- (2 * pi / l)))"
    by (simp add: field_simps)
  also have "\<dots> = cis (- (2 * pi / l)) ^ (m * k)"
    by (simp only: DeMoivre)
  finally show ?thesis .
qed

lemma dft_root:
  "dft a =
     map (\<lambda>k. sum_list (map (\<lambda>m. a ! m * cis (- (2 * pi / real (length a))) ^ (m * k))
                              [0..<length a]))
         [0..<length a]"
  unfolding dft_def cis_root_power ..

lemma cis_minus_pi: "cis (- pi) = - 1"
  by (simp add: complex_eq_iff)

lemma dft1: "dft [a] = [a]"
  by (simp add: dft_def)

lemma dft2: "dft [a, b] = [a + b, a - b]"
  by (simp add: dft_root cis_minus_pi)

lemma upt4: "[0..<4] = [0, 1, 2, 3]"
  by (simp add: upt_rec)

lemma dft4:
  "dft [a, b, c, d] =
     [a + b + c + d, a - \<i> * b - c + \<i> * d, a - b + c - d, a + \<i> * b - c - \<i> * d]"
  apply (simp add: dft_root upt4 del: upt_Suc)
  apply (simp add: eval_nat_numeral algebra_simps)
  done

lemma np_fftshift4: "np_fftshift [a, b, c, d] = [c, d, a, b]"
  by (simp add: np_fftshift_def np_roll_def)

lemma np_fftshift2: "np_fftshift [a, b] = [b, a]"
  by (simp add: np_fftshift_def np_roll_def)

section \<open>Decibels\<close>

lemma dB_scale:
  assumes "0 < c" and "0 \<le> m"
  shows "np_scale 10 (np_log10 (np_true_divide (c * m) l)) =
         np_add (np_scale 10 (np_log10 (np_true_divide m l))) (Fin (10 * log 10 c))"
proof (cases "l = 0")
  case True
  with assms show ?thesis
    by (simp add: np_true_divide_def zero_less_mult_iff)
next
  case False
  show ?thesis
  proof (cases "0 < m / l")
    case True
    with assms have "log 10 (c * m / l) = log 10 c + log 10 (m / l)"
      using log_mult_pos [of c "m / l" 10] by simp
    with True False assms show ?thesis
      by (simp add: np_true_divide_def zero_less_mult_iff zero_less_divide_iff algebra_simps)
  next
    case neg: False
    with False assms show ?thesis
      by (auto simp: np_true_divide_def zero_less_mult_iff zero_less_divide_iff not_less)
  qed
qed

section \<open>Properties of \<^verbatim>\<open>find_fft\<close>\<close>

text \<open>
  C1, as the code has it: \<^verbatim>\<open>find_fft\<close> checks nothing itself. The only exception is
  the \<^verbatim>\<open>ValueError\<close> of \<^verbatim>\<open>np.fft.fft\<close> for a window length below 1. An empty sample
  sequence with a positive window length raises nothing: the transform of the padding
  is zero, \<open>0 / 0\<close> is \<^verbatim>\<open>nan\<close>, and the result is a sequence of \<^verbatim>\<open>nan\<close>.
\<close>

theorem find_fft_raises_iff:
  "(find_fft s n = Inl e) = (n < 1 \<and> e = ValueError)
   \<and> find_fft [] (int (Suc k)) = Inr (replicate (Suc k) NaN)"
proof -
  have "(find_fft s n = Inl e) = (n < 1 \<and> e = ValueError)"
    by (auto simp: find_fft_def np_fft_def Let_def)
  moreover have "find_fft [] (int (Suc k)) = Inr (replicate (Suc k) NaN)"
    by (simp add: find_fft_Inr resize_Nil dft_zeros np_fftshift_def np_roll_replicate
        np_true_divide_def del: replicate_Suc)
  ultimately show ?thesis ..
qed

theorem find_fft_raises_iff_witness:
  "find_fft [1, 2, 3] 0 = Inl ValueError \<and> find_fft [] 8 = Inr (replicate 8 NaN)"
  using find_fft_raises_iff [of "[1, 2, 3]" 0 ValueError 7] by simp

text \<open>
  C1 as the specification states it fails on the empty sample sequence: with window
  length 8 the call returns eight \<^verbatim>\<open>nan\<close> and raises nothing.
\<close>

theorem find_fft_empty_counterexample:
  "find_fft [] 8 = Inr [NaN, NaN, NaN, NaN, NaN, NaN, NaN, NaN]
   \<and> find_fft [] 8 \<noteq> Inl ValueError"
proof -
  have "find_fft [] 8 = Inr (replicate 8 NaN)"
    by (simp add: find_fft_Inr resize_Nil dft_zeros np_fftshift_def np_roll_replicate
        np_true_divide_def)
  moreover have "replicate 8 NaN = [NaN, NaN, NaN, NaN, NaN, NaN, NaN, NaN]"
    by (simp add: eval_nat_numeral)
  ultimately show ?thesis
    by simp
qed

text \<open>
  C3: for a non-empty sample sequence \<open>s\<close> and a positive window length \<open>n\<close>, the
  element at index \<open>i\<close> of the result is \<open>10 * log10 (|X| / len s)\<close>, where \<open>X\<close> is the
  bin of the size-\<open>n\<close> transform that the shift brings to \<open>i\<close>; the divisor is the
  number of samples, not \<open>n\<close>.
\<close>

theorem find_fft_formula:
  "s \<noteq> [] \<Longrightarrow> 0 < n \<Longrightarrow>
   \<exists>ys. find_fft s n = Inr ys \<and> length ys = nat n
        \<and> (\<forall>i<nat n. ys ! i = spec_spectrum s (nat n) i)"
proof -
  assume s: "s \<noteq> []" and n: "0 < n"
  let ?ys = "projr (find_fft s n)"
  from n have ys: "find_fft s n = Inr ?ys"
    by (simp add: find_fft_Inr)
  from n have len: "length ?ys = nat n"
    by (simp add: find_fft_Inr length_np_fftshift length_dft length_resize)
  have "?ys ! i = spec_spectrum s (nat n) i" if "i < nat n" for i
  proof -
    from that have "spec_centred (nat n) i < nat n"
      by (simp add: spec_centred_less)
    then have "dft (resize s (nat n)) ! spec_centred (nat n) i
               = spec_DFT s (nat n) (spec_centred (nat n) i)"
      by (rule dft_resize_nth)
    with s n that show ?thesis
      by (simp add: find_fft_nth spec_spectrum_def np_true_divide_def)
  qed
  with ys len show ?thesis
    by blast
qed

theorem find_fft_formula_witness:
  "[1, 2, 3] \<noteq> ([] :: complex list) \<and> (0::int) < 8
   \<and> (\<exists>ys. find_fft [1, 2, 3] 8 = Inr ys \<and> length ys = 8
         \<and> (\<forall>i<8. ys ! i = spec_spectrum [1, 2, 3] 8 i))"
  using find_fft_formula [of "[1, 2, 3]" 8] by simp

text \<open>
  C4, as the code has it: scaling every sample by a constant \<open>c > 0\<close> adds
  \<open>10 * log10 c\<close> to every element of the result (the decibel is taken as
  \<open>10 * log10\<close> of the magnitude), and \<^verbatim>\<open>-inf\<close> stays \<^verbatim>\<open>-inf\<close>.
\<close>

theorem find_fft_scale:
  "s \<noteq> [] \<Longrightarrow> 0 < n \<Longrightarrow> 0 < c \<Longrightarrow>
   \<exists>ys zs. find_fft s n = Inr ys
         \<and> find_fft (map (\<lambda>x. complex_of_real c * x) s) n = Inr zs
         \<and> length zs = length ys
         \<and> (\<forall>i<length ys. zs ! i = np_add (ys ! i) (Fin (10 * log 10 c)))"
proof -
  assume "s \<noteq> []" and n: "0 < n" and c: "0 < c"
  let ?ys = "projr (find_fft s n)"
  let ?zs = "map (\<lambda>y. np_add y (Fin (10 * log 10 c))) ?ys"
  from n have "find_fft s n = Inr ?ys"
    by (simp add: find_fft_Inr)
  moreover from n c have "find_fft (map (\<lambda>x. complex_of_real c * x) s) n = Inr ?zs"
    by (simp add: find_fft_Inr resize_map dft_scale np_fftshift_map o_def norm_mult dB_scale)
  moreover have "length ?zs = length ?ys"
    by simp
  moreover have "\<forall>i<length ?ys. ?zs ! i = np_add (?ys ! i) (Fin (10 * log 10 c))"
    by simp
  ultimately show ?thesis
    by blast
qed

theorem find_fft_scale_witness:
  "[1] \<noteq> ([] :: complex list) \<and> (0::int) < 1 \<and> (0::real) < 10
   \<and> (\<exists>ys zs. find_fft [1] 1 = Inr ys
         \<and> find_fft (map (\<lambda>x. complex_of_real 10 * x) [1]) 1 = Inr zs
         \<and> length zs = length ys
         \<and> (\<forall>i<length ys. zs ! i = np_add (ys ! i) (Fin (10 * log 10 10))))"
  using find_fft_scale [of "[1]" 1 10] by simp

text \<open>
  C4 as the specification states it, with a shift of \<open>20 * log10 c\<close>, fails: for the
  single sample 1, window length 1 and \<open>c = 10\<close> the result moves from 0 dB to 10 dB,
  not to 20 dB.
\<close>

theorem find_fft_scale_counterexample:
  "find_fft [1] 1 = Inr [Fin 0] \<and> find_fft [10 * 1] 1 = Inr [Fin 10]
   \<and> Fin 10 \<noteq> np_add (Fin 0) (Fin (20 * log 10 10))"
  by (simp add: find_fft_def np_fft_def resize_def dft1 np_fftshift_def np_roll_def
      np_true_divide_def)

text \<open>
  C5: for a window length \<open>N\<close> above the number of samples, the transform step of
  \<^verbatim>\<open>find_fft\<close> is the transform of the samples padded with zeros to length \<open>N\<close>
  (\<^verbatim>\<open>np.fft.fft\<close> of the padded sequence, no size given), and the result is computed
  from that transform with the number of unpadded samples as divisor.
\<close>

theorem find_fft_zero_padding:
  "s \<noteq> [] \<Longrightarrow> int (length s) < N \<Longrightarrow>
   np_fft s (Some N) = np_fft (s @ replicate (nat N - length s) 0) None
   \<and> np_fft (s @ replicate (nat N - length s) 0) None
       = Inr (dft (s @ replicate (nat N - length s) 0))
   \<and> find_fft s N
       = Inr (map (\<lambda>z. np_scale 10 (np_log10 (Fin (cmod z / real (length s)))))
                  (np_fftshift (dft (s @ replicate (nat N - length s) 0))))"
proof -
  assume s: "s \<noteq> []" and N: "int (length s) < N"
  let ?padded = "s @ replicate (nat N - length s) 0"
  from N have len: "length ?padded = nat N"
    by simp
  from N have pad: "resize s (nat N) = ?padded"
    by (simp add: resize_pad)
  have same: "resize ?padded (nat N) = ?padded"
    using resize_same [of ?padded] by (simp only: len)
  from N have "np_fft s (Some N) = Inr (dft ?padded)"
    by (simp add: np_fft_def pad)
  moreover from N have "np_fft ?padded None = Inr (dft ?padded)"
    using same by (simp add: np_fft_def)
  moreover from s N have "find_fft s N
       = Inr (map (\<lambda>z. np_scale 10 (np_log10 (Fin (cmod z / real (length s)))))
                  (np_fftshift (dft ?padded)))"
    by (simp add: find_fft_Inr pad np_true_divide_def)
  ultimately show ?thesis
    by simp
qed

theorem find_fft_zero_padding_witness:
  "[1, 2, 3] \<noteq> ([] :: complex list) \<and> int (length [1, 2, 3 :: complex]) < 4
   \<and> np_fft [1, 2, 3] (Some 4) = np_fft [1, 2, 3, 0] None
   \<and> np_fft [1, 2, 3, 0] None = Inr (dft [1, 2, 3, 0])
   \<and> find_fft [1, 2, 3] 4
       = Inr (map (\<lambda>z. np_scale 10 (np_log10 (Fin (cmod z / 3))))
                  (np_fftshift (dft [1, 2, 3, 0])))"
  using find_fft_zero_padding [of "[1, 2, 3]" 4] by simp

text \<open>
  The divisor is why padding by hand before the call is not the same as passing a
  larger window length: \<^verbatim>\<open>find_fft\<close> of the padded sequence divides by its length.
\<close>

lemma find_fft_padded_by_hand:
  "find_fft [1] 2 = Inr [Fin 0, Fin 0]
   \<and> find_fft [1, 0] 2 = Inr [Fin (10 * log 10 (1 / 2)), Fin (10 * log 10 (1 / 2))]"
  by (simp add: find_fft_def np_fft_def resize_def dft2 np_fftshift2 np_true_divide_def)

text \<open>
  C6: the zero-frequency bin of the transform (bin 0) is at index \<open>n div 2\<close> of the
  result. For the samples \<open>[1, 1, 1, 1]\<close> and window length 4 the result is
  \<open>[-inf, -inf, 0, -inf]\<close>: index 2 holds the largest value.
\<close>

theorem find_fft_centre:
  "(s \<noteq> [] \<longrightarrow> 0 < n \<longrightarrow>
      (\<exists>ys. find_fft s n = Inr ys
         \<and> ys ! (nat n div 2)
             = np_scale 10 (np_log10 (Fin (cmod (dft (resize s (nat n)) ! 0) / real (length s))))))
   \<and> find_fft [1, 1, 1, 1] 4 = Inr [NInf, NInf, Fin 0, NInf]
   \<and> (\<forall>i<4. i \<noteq> 2 \<longrightarrow> np_less ([NInf, NInf, Fin 0, NInf] ! i) ([NInf, NInf, Fin 0, NInf] ! 2))"
proof -
  have "\<exists>ys. find_fft s n = Inr ys
         \<and> ys ! (nat n div 2)
             = np_scale 10 (np_log10 (Fin (cmod (dft (resize s (nat n)) ! 0) / real (length s))))"
    if s: "s \<noteq> []" and n: "0 < n"
  proof -
    from n have "nat n div 2 < nat n"
      by simp
    with n have "projr (find_fft s n) ! (nat n div 2) =
         np_scale 10 (np_log10 (np_true_divide
           (cmod (dft (resize s (nat n)) ! spec_centred (nat n) (nat n div 2))) (real (length s))))"
      by (rule find_fft_nth)
    with s n have "projr (find_fft s n) ! (nat n div 2) =
         np_scale 10 (np_log10 (Fin (cmod (dft (resize s (nat n)) ! 0) / real (length s))))"
      by (simp add: spec_centred_middle np_true_divide_def)
    moreover from n have "find_fft s n = Inr (projr (find_fft s n))"
      by (simp add: find_fft_Inr)
    ultimately show ?thesis
      by blast
  qed
  moreover have "find_fft [1, 1, 1, 1] 4 = Inr [NInf, NInf, Fin 0, NInf]"
    by (simp add: find_fft_def np_fft_def resize_def dft4 np_fftshift4 np_true_divide_def)
  moreover have "\<forall>i<4. i \<noteq> 2 \<longrightarrow>
      np_less ([NInf, NInf, Fin 0, NInf] ! i) ([NInf, NInf, Fin 0, NInf] ! 2)"
    by (auto simp: less_Suc_eq eval_nat_numeral)
  ultimately show ?thesis
    by blast
qed

theorem find_fft_centre_witness:
  "[1, 1, 1, 1] \<noteq> ([] :: complex list) \<and> (0::int) < 4
   \<and> (\<exists>ys. find_fft [1, 1, 1, 1] 4 = Inr ys \<and> ys ! 2 = Fin 0)
   \<and> np_less ([NInf, NInf, Fin 0, NInf] ! 0) ([NInf, NInf, Fin 0, NInf] ! 2)"
  using find_fft_centre [of "[1, 1, 1, 1]" 4]
  by (simp add: resize_def dft4)

text \<open>
  C7: for the samples \<open>[1, -1, 1, -1]\<close> and window length 4 the transform is
  \<open>[0, 0, 4, 0]\<close>, and the result is 0 dB at index 0 and \<^verbatim>\<open>-inf\<close> at the three other
  indices.
\<close>

theorem find_fft_alternating:
  "np_fft [1, - 1, 1, - 1] (Some 4) = Inr [0, 0, 4, 0]
   \<and> find_fft [1, - 1, 1, - 1] 4 = Inr [Fin 0, NInf, NInf, NInf]"
  by (simp add: find_fft_def np_fft_def resize_def dft4 np_fftshift4 np_true_divide_def)

text \<open>
  C8: for a non-empty sample sequence and a positive window length \<^verbatim>\<open>find_fft\<close>
  returns a sequence, and wherever the shifted transform has magnitude zero the
  element is \<^verbatim>\<open>-inf\<close>.
\<close>

theorem find_fft_minus_infinity:
  "s \<noteq> [] \<Longrightarrow> 0 < n \<Longrightarrow>
   \<exists>ys. find_fft s n = Inr ys
        \<and> (\<forall>i<nat n. cmod (np_fftshift (dft (resize s (nat n))) ! i) = 0 \<longrightarrow> ys ! i = NInf)"
proof -
  assume s: "s \<noteq> []" and n: "0 < n"
  let ?fft = "np_fftshift (dft (resize s (nat n)))"
  have len: "length ?fft = nat n"
    by (simp add: length_np_fftshift length_dft length_resize)
  from n have "find_fft s n = Inr (projr (find_fft s n))"
    by (simp add: find_fft_Inr)
  moreover have "projr (find_fft s n) ! i = NInf" if "i < nat n" and "cmod (?fft ! i) = 0" for i
    using that s n len by (simp add: find_fft_Inr np_true_divide_def)
  ultimately show ?thesis
    by blast
qed

theorem find_fft_minus_infinity_witness:
  "[1, - 1] \<noteq> ([] :: complex list) \<and> (0::int) < 2
   \<and> cmod (np_fftshift (dft (resize [1, - 1] (nat 2))) ! 1) = 0
   \<and> (\<exists>ys. find_fft [1, - 1] 2 = Inr ys \<and> ys ! 1 = NInf)"
proof -
  have shifted: "np_fftshift (dft (resize [1, - 1] 2)) = [2, 0]"
    by (simp add: resize_def dft2 np_fftshift2)
  from find_fft_minus_infinity [of "[1, - 1]" 2]
  obtain ys where ys: "find_fft [1, - 1] 2 = Inr ys"
    and inf: "\<forall>i<nat 2. cmod (np_fftshift (dft (resize [1, - 1] (nat 2))) ! i) = 0 \<longrightarrow> ys ! i = NInf"
    by auto
  have "(1::nat) < nat 2"
    by simp
  with inf have "cmod (np_fftshift (dft (resize [1, - 1] (nat 2))) ! 1) = 0 \<longrightarrow> ys ! 1 = NInf"
    by blast
  then have "ys ! 1 = NInf"
    by (simp add: shifted)
  with ys shifted show ?thesis
    by simp
qed

section \<open>Properties of \<^verbatim>\<open>plot_timeseries\<close>\<close>

lemma plot_timeseries_body_no_style:
  "length line \<le> i \<Longrightarrow> plot_timeseries_body x y line i st = Inl (IndexError, st)"
  by (simp add: plot_timeseries_body_def py_get_def)

text \<open>
  C9: with more than one series and the style argument left at its default, the first
  series is drawn as a line, the lookup \<^verbatim>\<open>line[1]\<close> raises \<^verbatim>\<open>IndexError\<close> and the figure
  is never shown. The first series is taken as a pair of arrays of one length, which
  \<^verbatim>\<open>ax.plot\<close> needs.
\<close>

theorem plot_timeseries_default_style:
  "1 < length x \<Longrightarrow> length y = length x \<Longrightarrow> length (x ! 0) = length (y ! 0) \<Longrightarrow>
   plot_timeseries title x y None
     = Inl (IndexError, plot_timeseries_setup title @ [Plot (x ! 0) (y ! 0) []])"
proof -
  assume many: "1 < length x" and same: "length y = length x"
    and wf: "length (x ! 0) = length (y ! 0)"
  from many have "[0..<length x] = 0 # [Suc 0..<length x]"
    by (intro upt_conv_Cons) linarith
  moreover from many have "[Suc 0..<length x] = Suc 0 # [Suc (Suc 0)..<length x]"
    by (intro upt_conv_Cons) simp
  ultimately have idx: "[0..<length x] = 0 # Suc 0 # [Suc (Suc 0)..<length x]"
    by simp
  from many have "0 < length x"
    by linarith
  with same wf
  have first: "plot_timeseries_body x y [''continuous''] 0 (plot_timeseries_setup title)
               = Inr (plot_timeseries_setup title @ [Plot (x ! 0) (y ! 0) []])"
    by (simp add: plot_timeseries_body_def draw_series_def py_get_def ax_plot_def)
  have second: "plot_timeseries_body x y [''continuous''] (Suc 0) st = Inl (IndexError, st)" for st
    by (simp add: plot_timeseries_body_no_style)
  show ?thesis
    by (simp add: plot_timeseries_def idx first second)
qed

theorem plot_timeseries_default_style_witness:
  "1 < length [[Fin 0, Fin 1], [Fin 0, Fin 1]]
   \<and> length [[Fin 0, Fin 1], [Fin 1, Fin 0]] = length [[Fin 0, Fin 1], [Fin 0, Fin 1]]
   \<and> length ([[Fin 0, Fin 1], [Fin 0, Fin 1]] ! 0) = length ([[Fin 0, Fin 1], [Fin 1, Fin 0]] ! 0)
   \<and> plot_timeseries ''t'' [[Fin 0, Fin 1], [Fin 0, Fin 1]] [[Fin 0, Fin 1], [Fin 1, Fin 0]] None
       = Inl (IndexError, plot_timeseries_setup ''t'' @ [Plot [Fin 0, Fin 1] [Fin 0, Fin 1] []])"
  using plot_timeseries_default_style
    [of "[[Fin 0, Fin 1], [Fin 0, Fin 1]]" "[[Fin 0, Fin 1], [Fin 1, Fin 0]]" "''t''"]
  by simp

section \<open>Properties of \<^verbatim>\<open>plot_response\<close>\<close>

text \<open>
  C10: with \<^verbatim>\<open>xlim\<close> left at \<^verbatim>\<open>None\<close> and arrays \<^verbatim>\<open>w\<close>, \<^verbatim>\<open>h\<close> of one length, the
  helper runs to its end and sets the x-axis limits once, to 0 and \<open>fs / 2\<close>.
\<close>

theorem plot_response_default_xlim:
  "length w = length h \<Longrightarrow>
   \<exists>st. plot_response fs w h title None = Inr st \<and> xlim_calls st = [(0, fs / 2)]"
  by (simp add: plot_response_def ax_plot_def)

theorem plot_response_default_xlim_witness:
  "length [0, pi / 2] = length [1, \<i>]
   \<and> (\<exists>st. plot_response 8000 [0, pi / 2] [1, \<i>] ''lowpass'' None = Inr st
         \<and> xlim_calls st = [(0, 4000)])"
  using plot_response_default_xlim [of "[0, pi / 2]" "[1, \<i>]" 8000 "''lowpass''"]
  by simp

end
